theory Spec2Isabelle
  imports Complex_Main
begin

section \<open>JavaScript numbers\<close>

text \<open>
  A JavaScript number is an IEEE-754 double. The model keeps the special values
  (both zeros, both infinities, NaN) and the rules of IEEE arithmetic on them, and
  computes on finite values with exact real arithmetic: rounding, overflow and
  underflow of the 64-bit format are not modelled. \<open>Fin 0\<close> is the positive zero.
\<close>

datatype jsnum = Fin real | NegZero | PInf | NInf | NaN

fun is_nan :: "jsnum \<Rightarrow> bool" where
  "is_nan NaN = True"
| "is_nan _ = False"

fun is_inf :: "jsnum \<Rightarrow> bool" where
  "is_inf PInf = True"
| "is_inf NInf = True"
| "is_inf _ = False"

fun is_zero :: "jsnum \<Rightarrow> bool" where
  "is_zero (Fin x) = (x = 0)"
| "is_zero NegZero = True"
| "is_zero _ = False"

fun signbit :: "jsnum \<Rightarrow> bool" where
  "signbit (Fin x) = (x < 0)"
| "signbit NegZero = True"
| "signbit NInf = True"
| "signbit _ = False"

fun val :: "jsnum \<Rightarrow> real" where
  "val (Fin x) = x"
| "val _ = 0"

fun is_fin :: "jsnum \<Rightarrow> bool" where
  "is_fin (Fin x) = True"
| "is_fin NegZero = True"
| "is_fin _ = False"

definition signed_inf :: "bool \<Rightarrow> jsnum" where
  "signed_inf s = (if s then NInf else PInf)"

definition signed_zero :: "bool \<Rightarrow> jsnum" where
  "signed_zero s = (if s then NegZero else Fin 0)"

instantiation jsnum :: "{plus, minus, uminus, times, inverse, abs, ord}"
begin

fun uminus_jsnum :: "jsnum \<Rightarrow> jsnum" where
  "uminus_jsnum (Fin x) = (if x = 0 then NegZero else Fin (- x))"
| "uminus_jsnum NegZero = Fin 0"
| "uminus_jsnum PInf = NInf"
| "uminus_jsnum NInf = PInf"
| "uminus_jsnum NaN = NaN"

fun plus_jsnum :: "jsnum \<Rightarrow> jsnum \<Rightarrow> jsnum" where
  "plus_jsnum NaN _ = NaN"
| "plus_jsnum _ NaN = NaN"
| "plus_jsnum PInf NInf = NaN"
| "plus_jsnum NInf PInf = NaN"
| "plus_jsnum PInf _ = PInf"
| "plus_jsnum _ PInf = PInf"
| "plus_jsnum NInf _ = NInf"
| "plus_jsnum _ NInf = NInf"
| "plus_jsnum NegZero NegZero = NegZero"
| "plus_jsnum NegZero (Fin y) = Fin y"
| "plus_jsnum (Fin x) NegZero = Fin x"
| "plus_jsnum (Fin x) (Fin y) = Fin (x + y)"

definition minus_jsnum :: "jsnum \<Rightarrow> jsnum \<Rightarrow> jsnum" where
  "minus_jsnum a b = a + (- b)"

definition times_jsnum :: "jsnum \<Rightarrow> jsnum \<Rightarrow> jsnum" where
  "times_jsnum a b =
     (if is_nan a \<or> is_nan b then NaN
      else if (is_inf a \<and> is_zero b) \<or> (is_zero a \<and> is_inf b) then NaN
      else if is_inf a \<or> is_inf b then signed_inf (signbit a \<noteq> signbit b)
      else if is_zero a \<or> is_zero b then signed_zero (signbit a \<noteq> signbit b)
      else Fin (val a * val b))"

definition divide_jsnum :: "jsnum \<Rightarrow> jsnum \<Rightarrow> jsnum" where
  "divide_jsnum a b =
     (if is_nan a \<or> is_nan b then NaN
      else if (is_inf a \<and> is_inf b) \<or> (is_zero a \<and> is_zero b) then NaN
      else if is_inf a \<or> is_zero b then signed_inf (signbit a \<noteq> signbit b)
      else if is_inf b \<or> is_zero a then signed_zero (signbit a \<noteq> signbit b)
      else Fin (val a / val b))"

definition inverse_jsnum :: "jsnum \<Rightarrow> jsnum" where
  "inverse_jsnum a = divide (Fin 1) a"

fun abs_jsnum :: "jsnum \<Rightarrow> jsnum" where
  "abs_jsnum (Fin x) = Fin \<bar>x\<bar>"
| "abs_jsnum NegZero = Fin 0"
| "abs_jsnum PInf = PInf"
| "abs_jsnum NInf = PInf"
| "abs_jsnum NaN = NaN"

fun less_jsnum :: "jsnum \<Rightarrow> jsnum \<Rightarrow> bool" where
  "less_jsnum NaN _ = False"
| "less_jsnum _ NaN = False"
| "less_jsnum PInf _ = False"
| "less_jsnum _ PInf = True"
| "less_jsnum _ NInf = False"
| "less_jsnum NInf _ = True"
| "less_jsnum a b = (val a < val b)"

fun less_eq_jsnum :: "jsnum \<Rightarrow> jsnum \<Rightarrow> bool" where
  "less_eq_jsnum NaN _ = False"
| "less_eq_jsnum _ NaN = False"
| "less_eq_jsnum _ PInf = True"
| "less_eq_jsnum PInf _ = False"
| "less_eq_jsnum NInf _ = True"
| "less_eq_jsnum _ NInf = False"
| "less_eq_jsnum a b = (val a \<le> val b)"

instance ..

end

text \<open>\<open>Math.sqrt\<close>, \<open>Math.round\<close> (ties go up; a result in \<open>[-0.5, 0)\<close> is the
  negative zero) and the truthiness test of \<open>||\<close>.\<close>

fun Math_sqrt :: "jsnum \<Rightarrow> jsnum" where
  "Math_sqrt (Fin x) = (if x < 0 then NaN else Fin (sqrt x))"
| "Math_sqrt NegZero = NegZero"
| "Math_sqrt PInf = PInf"
| "Math_sqrt NInf = NaN"
| "Math_sqrt NaN = NaN"

fun Math_round :: "jsnum \<Rightarrow> jsnum" where
  "Math_round (Fin x) =
     (if \<lfloor>x + 1 / 2\<rfloor> = 0 \<and> x < 0 then NegZero else Fin (of_int \<lfloor>x + 1 / 2\<rfloor>))"
| "Math_round a = a"

definition truthy :: "jsnum \<Rightarrow> bool" where
  "truthy a = (\<not> is_zero a \<and> \<not> is_nan a)"

section \<open>Vector helpers (millerIndices.js)\<close>

type_synonym vec3 = "jsnum \<times> jsnum \<times> jsnum"

fun cross :: "vec3 \<Rightarrow> vec3 \<Rightarrow> vec3" where
  "cross (a0, a1, a2) (b0, b1, b2) =
     (a1 * b2 - a2 * b1, a2 * b0 - a0 * b2, a0 * b1 - a1 * b0)"

fun dot :: "vec3 \<Rightarrow> vec3 \<Rightarrow> jsnum" where
  "dot (a0, a1, a2) (b0, b1, b2) = a0 * b0 + a1 * b1 + a2 * b2"

fun scale :: "vec3 \<Rightarrow> jsnum \<Rightarrow> vec3" where
  "scale (v0, v1, v2) s = (v0 * s, v1 * s, v2 * s)"

fun add :: "vec3 \<Rightarrow> vec3 \<Rightarrow> vec3" where
  "add (a0, a1, a2) (b0, b1, b2) = (a0 + b0, a1 + b1, a2 + b2)"

fun magnitude :: "vec3 \<Rightarrow> jsnum" where
  "magnitude (v0, v1, v2) = Math_sqrt (v0 * v0 + v1 * v1 + v2 * v2)"

definition normalize :: "vec3 \<Rightarrow> vec3" where
  "normalize v =
     (let m = magnitude v
      in if Fin 0 < m then (fst v / m, fst (snd v) / m, snd (snd v) / m)
         else (Fin 0, Fin 0, Fin 0))"

section \<open>computePlane\<close>

record plane =
  planeNormal :: vec3
  dSpacing :: jsnum
  G :: vec3

definition computePlane ::
  "jsnum \<Rightarrow> jsnum \<Rightarrow> jsnum \<Rightarrow> vec3 \<times> vec3 \<times> vec3 \<Rightarrow> jsnum \<Rightarrow> plane" where
  "computePlane h k l vectors a =
     (let a1 = scale (fst vectors) a;
          a2 = scale (fst (snd vectors)) a;
          a3 = scale (snd (snd vectors)) a;
          a2xa3 = cross a2 a3;
          vol = dot a1 a2xa3;
          b1 = scale (cross a2 a3) (Fin 1 / vol);
          b2 = scale (cross a3 a1) (Fin 1 / vol);
          b3 = scale (cross a1 a2) (Fin 1 / vol);
          G = add (add (scale b1 h) (scale b2 k)) (scale b3 l);
          Gmag = magnitude G;
          dSpacing = (if Fin 0 < Gmag then Fin 1 / Gmag else PInf);
          planeNormal = normalize G
      in \<lparr>planeNormal = planeNormal, dSpacing = dSpacing, G = G\<rparr>)"


section \<open>clipPlaneToBox\<close>

record clipped =
  vertices :: "vec3 list"
  edgeLoop :: "vec3 list"

definition intersectEdgePlane :: "vec3 \<Rightarrow> vec3 \<Rightarrow> vec3 \<Rightarrow> jsnum \<Rightarrow> vec3" where
  "intersectEdgePlane a b normal d =
     (let da = dot a normal - d;
          db = dot b normal - d;
          t = da / (da - db)
      in (fst a + t * (fst b - fst a),
          fst (snd a) + t * (fst (snd b) - fst (snd a)),
          snd (snd a) + t * (snd (snd b) - snd (snd a))))"

text \<open>The body of the \<open>for\<close> loop of \<open>clipPolygonByPlane\<close>: what index \<open>i\<close> pushes.\<close>

definition clipEdge :: "vec3 list \<Rightarrow> vec3 \<Rightarrow> jsnum \<Rightarrow> nat \<Rightarrow> vec3 list" where
  "clipEdge vs normal d i =
     (let current = vs ! i;
          next = vs ! ((i + 1) mod length vs);
          dc = dot current normal;
          dn = dot next normal;
          currentInside = (dc \<le> d + Fin (1 / 1000));
          nextInside = (dn \<le> d + Fin (1 / 1000))
      in if currentInside
         then (if \<not> nextInside then [current, intersectEdgePlane current next normal d]
               else [current])
         else if nextInside then [intersectEdgePlane current next normal d]
         else [])"

definition clipPolygonByPlane :: "vec3 list \<Rightarrow> vec3 \<Rightarrow> jsnum \<Rightarrow> vec3 list" where
  "clipPolygonByPlane vs normal d =
     (if length vs = 0 then []
      else concat (map (clipEdge vs normal d) [0..<length vs]))"

text \<open>The loop over the six clip planes, with its early return.\<close>

fun clipAll :: "(vec3 \<times> jsnum) list \<Rightarrow> vec3 list \<Rightarrow> clipped" where
  "clipAll [] polygon = \<lparr>vertices = polygon, edgeLoop = polygon\<rparr>"
| "clipAll (clip # clips) polygon =
     (let polygon' = clipPolygonByPlane polygon (fst clip) (snd clip)
      in if length polygon' < 3 then \<lparr>vertices = [], edgeLoop = []\<rparr>
         else clipAll clips polygon')"

definition clipPlanes :: "jsnum \<Rightarrow> (vec3 \<times> jsnum) list" where
  "clipPlanes bounds =
     [((Fin 1, Fin 0, Fin 0), bounds),
      ((Fin (- 1), Fin 0, Fin 0), bounds),
      ((Fin 0, Fin 1, Fin 0), bounds),
      ((Fin 0, Fin (- 1), Fin 0), bounds),
      ((Fin 0, Fin 0, Fin 1), bounds),
      ((Fin 0, Fin 0, Fin (- 1)), bounds)]"

definition tangents :: "vec3 \<Rightarrow> vec3 \<times> vec3" where
  "tangents normal =
     (let tangent1 =
            (if \<bar>fst normal\<bar> < Fin (9 / 10)
             then normalize (cross normal (Fin 1, Fin 0, Fin 0))
             else normalize (cross normal (Fin 0, Fin 1, Fin 0)));
          tangent2 = normalize (cross normal tangent1)
      in (tangent1, tangent2))"

definition initialQuad :: "vec3 \<Rightarrow> jsnum \<Rightarrow> jsnum \<Rightarrow> vec3 list" where
  "initialQuad normal d bounds =
     (let tangent1 = fst (tangents normal);
          tangent2 = snd (tangents normal);
          size = bounds * Fin 3;
          center = scale normal d
      in [add (add center (scale tangent1 (- size))) (scale tangent2 (- size)),
          add (add center (scale tangent1 size)) (scale tangent2 (- size)),
          add (add center (scale tangent1 size)) (scale tangent2 size),
          add (add center (scale tangent1 (- size))) (scale tangent2 size)])"

definition clipPlaneToBox :: "vec3 \<Rightarrow> jsnum \<Rightarrow> jsnum \<Rightarrow> clipped" where
  "clipPlaneToBox normal offset bounds =
     clipAll (clipPlanes bounds) (initialQuad normal offset bounds)"

section \<open>Lattice generation (lattices.js)\<close>

record Structure =
  sid :: string
  basis :: "vec3 list"
  vectors :: "vec3 \<times> vec3 \<times> vec3"
  defaultA :: jsnum

record atom =
  position :: vec3
  isEdge :: bool

record bond =
  bond_start :: vec3
  bond_end :: vec3


definition STRUCTURES_bcc :: Structure where
  "STRUCTURES_bcc =
     \<lparr>sid = ''bcc'',
      basis = [(Fin 0, Fin 0, Fin 0), (Fin (1 / 2), Fin (1 / 2), Fin (1 / 2))],
      vectors = ((Fin 1, Fin 0, Fin 0), (Fin 0, Fin 1, Fin 0), (Fin 0, Fin 0, Fin 1)),
      defaultA = Fin (287 / 100)\<rparr>"

definition STRUCTURES_fcc :: Structure where
  "STRUCTURES_fcc =
     \<lparr>sid = ''fcc'',
      basis = [(Fin 0, Fin 0, Fin 0), (Fin (1 / 2), Fin (1 / 2), Fin 0),
               (Fin (1 / 2), Fin 0, Fin (1 / 2)), (Fin 0, Fin (1 / 2), Fin (1 / 2))],
      vectors = ((Fin 1, Fin 0, Fin 0), (Fin 0, Fin 1, Fin 0), (Fin 0, Fin 0, Fin 1)),
      defaultA = Fin (361 / 100)\<rparr>"

definition STRUCTURES_diamond :: Structure where
  "STRUCTURES_diamond =
     \<lparr>sid = ''diamond'',
      basis = [(Fin 0, Fin 0, Fin 0), (Fin (1 / 2), Fin (1 / 2), Fin 0),
               (Fin (1 / 2), Fin 0, Fin (1 / 2)), (Fin 0, Fin (1 / 2), Fin (1 / 2)),
               (Fin (1 / 4), Fin (1 / 4), Fin (1 / 4)), (Fin (3 / 4), Fin (3 / 4), Fin (1 / 4)),
               (Fin (3 / 4), Fin (1 / 4), Fin (3 / 4)), (Fin (1 / 4), Fin (3 / 4), Fin (3 / 4))],
      vectors = ((Fin 1, Fin 0, Fin 0), (Fin 0, Fin 1, Fin 0), (Fin 0, Fin 0, Fin 1)),
      defaultA = Fin (543 / 100)\<rparr>"

definition STRUCTURES_hcp :: Structure where
  "STRUCTURES_hcp =
     \<lparr>sid = ''hcp'',
      basis = [(Fin 0, Fin 0, Fin 0), (Fin 1 / Fin 3, Fin 2 / Fin 3, Fin (1 / 2))],
      vectors = ((Fin 1, Fin 0, Fin 0),
                 (Fin (1 / 2), Math_sqrt (Fin 3) / Fin 2, Fin 0),
                 (Fin 0, Fin 0, Math_sqrt (Fin 8 / Fin 3))),
      defaultA = Fin (321 / 100)\<rparr>"

text \<open>\<open>latticeConstant || structure.defaultA\<close>; \<open>None\<close> is an omitted or \<open>null\<close> argument.\<close>

definition latticeConstantOr :: "jsnum option \<Rightarrow> Structure \<Rightarrow> jsnum" where
  "latticeConstantOr latticeConstant s =
     (case latticeConstant of
        None \<Rightarrow> defaultA s
      | Some x \<Rightarrow> if truthy x then x else defaultA s)"

definition tolerance :: jsnum where
  "tolerance = Fin (1 / 100)"

text \<open>A number inside a template literal: both zeros print as \<open>0\<close>, every other value
  prints as itself, so two printed numbers are equal exactly when these values are.\<close>

fun printed :: "jsnum \<Rightarrow> jsnum" where
  "printed NegZero = Fin 0"
| "printed a = a"

type_synonym key = "jsnum \<times> jsnum \<times> jsnum"

fun keyOf :: "vec3 \<Rightarrow> key" where
  "keyOf (x, y, z) =
     (printed (Math_round (x / tolerance)),
      printed (Math_round (y / tolerance)),
      printed (Math_round (z / tolerance)))"

definition centering :: "nat \<Rightarrow> jsnum \<Rightarrow> jsnum" where
  "centering repeat a = (Fin (of_int (int repeat - 1)) * a) / Fin 2"

fun cellPosition :: "Structure \<Rightarrow> jsnum \<Rightarrow> jsnum \<Rightarrow> nat \<times> nat \<times> nat \<times> vec3 \<Rightarrow> vec3" where
  "cellPosition s a offset (i, j, k, (b0, b1, b2)) =
     (let v0 = fst (vectors s); v1 = fst (snd (vectors s)); v2 = snd (snd (vectors s));
          fracX = b0 + Fin (of_nat i);
          fracY = b1 + Fin (of_nat j);
          fracZ = b2 + Fin (of_nat k)
      in (fracX * fst v0 * a + fracY * fst v1 * a + fracZ * fst v2 * a - offset,
          fracX * fst (snd v0) * a + fracY * fst (snd v1) * a + fracZ * fst (snd v2) * a - offset,
          fracX * snd (snd v0) * a + fracY * snd (snd v1) * a + fracZ * snd (snd v2) * a - offset))"

fun cellIsEdge :: "nat \<Rightarrow> nat \<times> nat \<times> nat \<times> vec3 \<Rightarrow> bool" where
  "cellIsEdge repeat (i, j, k, b) =
     (i = 0 \<or> j = 0 \<or> k = 0 \<or>
      int i = int repeat - 1 \<or> int j = int repeat - 1 \<or> int k = int repeat - 1)"

text \<open>The four nested loops, in the order they run.\<close>

definition cells :: "nat \<Rightarrow> vec3 list \<Rightarrow> (nat \<times> nat \<times> nat \<times> vec3) list" where
  "cells repeat bs =
     concat (map (\<lambda>i. concat (map (\<lambda>j. concat (map (\<lambda>k. map (\<lambda>b. (i, j, k, b)) bs)
       [0..<repeat])) [0..<repeat])) [0..<repeat])"

text \<open>The innermost loop body: the state is the set \<open>seen\<close> and the list \<open>atoms\<close>.\<close>

definition visit ::
  "Structure \<Rightarrow> jsnum \<Rightarrow> jsnum \<Rightarrow> nat \<Rightarrow> nat \<times> nat \<times> nat \<times> vec3 \<Rightarrow>
     key set \<times> atom list \<Rightarrow> key set \<times> atom list" where
  "visit s a offset repeat c st =
     (let pos = cellPosition s a offset c;
          k = keyOf pos
      in if k \<notin> fst st
         then (insert k (fst st), snd st @ [\<lparr>position = pos, isEdge = cellIsEdge repeat c\<rparr>])
         else st)"

definition generateLattice :: "Structure \<Rightarrow> nat \<Rightarrow> jsnum option \<Rightarrow> atom list" where
  "generateLattice s repeat latticeConstant =
     (let a = latticeConstantOr latticeConstant s;
          offset = centering repeat a
      in snd (fold (visit s a offset repeat) (cells repeat (basis s)) ({}, [])))"

definition maxBondLength :: "string \<Rightarrow> jsnum \<Rightarrow> jsnum" where
  "maxBondLength i a =
     (if i = ''sc'' then a * Fin (105 / 100)
      else if i = ''bcc'' then a * Math_sqrt (Fin 3) / Fin 2 * Fin (105 / 100)
      else if i = ''fcc'' then a * Math_sqrt (Fin 2) / Fin 2 * Fin (105 / 100)
      else if i = ''diamond'' then a * Math_sqrt (Fin 3) / Fin 4 * Fin (105 / 100)
      else if i = ''hcp'' then a * Fin (105 / 100)
      else a * Fin (105 / 100))"

fun distance :: "vec3 \<Rightarrow> vec3 \<Rightarrow> jsnum" where
  "distance (p0, p1, p2) (q0, q1, q2) =
     (let dx = p0 - q0; dy = p1 - q1; dz = p2 - q2
      in Math_sqrt (dx * dx + dy * dy + dz * dz))"

definition bondPair :: "atom list \<Rightarrow> jsnum \<Rightarrow> nat \<Rightarrow> nat \<Rightarrow> bond list" where
  "bondPair atoms maxLen i j =
     (let dist = distance (position (atoms ! i)) (position (atoms ! j))
      in if dist \<le> maxLen \<and> Fin (1 / 100) < dist
         then [\<lparr>bond_start = position (atoms ! i), bond_end = position (atoms ! j)\<rparr>]
         else [])"

text \<open>The double loop over the pairs \<open>i < j\<close>.\<close>

definition bondsWithin :: "atom list \<Rightarrow> jsnum \<Rightarrow> bond list" where
  "bondsWithin atoms maxLen =
     concat (map (\<lambda>i. concat (map (bondPair atoms maxLen i) [i + 1..<length atoms]))
       [0..<length atoms])"

definition generateBonds :: "atom list \<Rightarrow> Structure \<Rightarrow> jsnum option \<Rightarrow> bond list" where
  "generateBonds atoms s latticeConstant =
     (let a = latticeConstantOr latticeConstant s;
          maxLen = maxBondLength (sid s) a
      in bondsWithin atoms maxLen)"

record unitCell =
  corners :: "vec3 list"
  edges :: "(nat \<times> nat) list"

definition generateUnitCell :: "Structure \<Rightarrow> jsnum option \<Rightarrow> unitCell" where
  "generateUnitCell s latticeConstant =
     (let a = latticeConstantOr latticeConstant s;
          v0 = scale (fst (vectors s)) a;
          v1 = scale (fst (snd (vectors s))) a;
          v2 = scale (snd (snd (vectors s))) a
      in \<lparr>corners =
            [(Fin 0, Fin 0, Fin 0), v0, v1, v2,
             (fst v0 + fst v1, fst (snd v0) + fst (snd v1), snd (snd v0) + snd (snd v1)),
             (fst v0 + fst v2, fst (snd v0) + fst (snd v2), snd (snd v0) + snd (snd v2)),
             (fst v1 + fst v2, fst (snd v1) + fst (snd v2), snd (snd v1) + snd (snd v2)),
             (fst v0 + fst v1 + fst v2, fst (snd v0) + fst (snd v1) + fst (snd v2),
              snd (snd v0) + snd (snd v1) + snd (snd v2))],
          edges =
            [(0, 1), (0, 2), (0, 3), (1, 4), (1, 5), (2, 4), (2, 6), (3, 5), (3, 6),
             (4, 7), (5, 7), (6, 7)]\<rparr>)"


section \<open>Real-valued reference definitions\<close>

text \<open>
  The reciprocal-lattice construction as the specification words it, over the reals:
  \<open>b1 = (a2 \<times> a3) / V\<close>, \<open>b2 = (a3 \<times> a1) / V\<close>, \<open>b3 = (a1 \<times> a2) / V\<close> with
  \<open>V = a1 \<cdot> (a2 \<times> a3)\<close> and \<open>G = h b1 + k b2 + l b3\<close>. The code is compared with it
  through \<open>val\<close> on finite numbers.
\<close>

type_synonym rvec = "real \<times> real \<times> real"

fun fin3 :: "vec3 \<Rightarrow> bool" where
  "fin3 (v0, v1, v2) = (is_fin v0 \<and> is_fin v1 \<and> is_fin v2)"

fun nonfin3 :: "vec3 \<Rightarrow> bool" where
  "nonfin3 (v0, v1, v2) = (\<not> is_fin v0 \<and> \<not> is_fin v1 \<and> \<not> is_fin v2)"

fun vals :: "vec3 \<Rightarrow> rvec" where
  "vals (v0, v1, v2) = (val v0, val v1, val v2)"

fun spec_cross :: "rvec \<Rightarrow> rvec \<Rightarrow> rvec" where
  "spec_cross (a0, a1, a2) (b0, b1, b2) =
     (a1 * b2 - a2 * b1, a2 * b0 - a0 * b2, a0 * b1 - a1 * b0)"

fun spec_dot :: "rvec \<Rightarrow> rvec \<Rightarrow> real" where
  "spec_dot (a0, a1, a2) (b0, b1, b2) = a0 * b0 + a1 * b1 + a2 * b2"

fun spec_scale :: "real \<Rightarrow> rvec \<Rightarrow> rvec" where
  "spec_scale s (v0, v1, v2) = (s * v0, s * v1, s * v2)"

fun spec_add :: "rvec \<Rightarrow> rvec \<Rightarrow> rvec" where
  "spec_add (a0, a1, a2) (b0, b1, b2) = (a0 + b0, a1 + b1, a2 + b2)"

definition spec_norm :: "rvec \<Rightarrow> real" where
  "spec_norm v = sqrt (spec_dot v v)"

definition spec_volume :: "rvec \<times> rvec \<times> rvec \<Rightarrow> real \<Rightarrow> real" where
  "spec_volume vs a =
     spec_dot (spec_scale a (fst vs))
       (spec_cross (spec_scale a (fst (snd vs))) (spec_scale a (snd (snd vs))))"

definition spec_G :: "real \<Rightarrow> real \<Rightarrow> real \<Rightarrow> rvec \<times> rvec \<times> rvec \<Rightarrow> real \<Rightarrow> rvec" where
  "spec_G h k l vs a =
     (let a1 = spec_scale a (fst vs);
          a2 = spec_scale a (fst (snd vs));
          a3 = spec_scale a (snd (snd vs));
          V = spec_dot a1 (spec_cross a2 a3);
          b1 = spec_scale (1 / V) (spec_cross a2 a3);
          b2 = spec_scale (1 / V) (spec_cross a3 a1);
          b3 = spec_scale (1 / V) (spec_cross a1 a2)
      in spec_add (spec_add (spec_scale h b1) (spec_scale k b2)) (spec_scale l b3))"

text \<open>The lattice vectors of the cubic structures of the catalogue (\<open>sc\<close>, \<open>bcc\<close>,
  \<open>fcc\<close>, \<open>diamond\<close>).\<close>

definition cubicVectors :: "vec3 \<times> vec3 \<times> vec3" where
  "cubicVectors = ((Fin 1, Fin 0, Fin 0), (Fin 0, Fin 1, Fin 0), (Fin 0, Fin 0, Fin 1))"

section \<open>Notions used to state the claims\<close>

text \<open>The positions the four loops of \<open>generateLattice\<close> compute, in loop order, before
  deduplication.\<close>

definition latticePositions :: "Structure \<Rightarrow> nat \<Rightarrow> jsnum option \<Rightarrow> vec3 list" where
  "latticePositions s repeat latticeConstant =
     (let a = latticeConstantOr latticeConstant s
      in map (cellPosition s a (centering repeat a)) (cells repeat (basis s)))"

text \<open>The quantized key that \<open>generateLattice\<close> computes at repeat count \<open>repeat\<close> for the
  site \<open>c\<close> (cell indices and basis atom).\<close>

definition siteKey ::
  "Structure \<Rightarrow> nat \<Rightarrow> jsnum option \<Rightarrow> nat \<times> nat \<times> nat \<times> vec3 \<Rightarrow> key" where
  "siteKey s repeat latticeConstant c =
     (let a = latticeConstantOr latticeConstant s
      in keyOf (cellPosition s a (centering repeat a) c))"

text \<open>The polygon after the first \<open>k\<close> clip planes have been applied, the early return
  left aside.\<close>

definition runningPolygon :: "(vec3 \<times> jsnum) list \<Rightarrow> vec3 list \<Rightarrow> nat \<Rightarrow> vec3 list" where
  "runningPolygon clips polygon k =
     fold (\<lambda>clip p. clipPolygonByPlane p (fst clip) (snd clip)) (take k clips) polygon"



section \<open>Arithmetic on finite numbers\<close>

lemmas js_arith =
  times_jsnum_def divide_jsnum_def minus_jsnum_def signed_inf_def signed_zero_def

lemma fin_plus: "is_fin a \<Longrightarrow> is_fin b \<Longrightarrow> is_fin (a + b)"
  by (cases a; cases b; simp)

lemma val_plus: "is_fin a \<Longrightarrow> is_fin b \<Longrightarrow> val (a + b) = val a + val b"
  by (cases a; cases b; simp)

lemma fin_uminus: "is_fin a \<Longrightarrow> is_fin (- a)"
  by (cases a; simp)

lemma val_uminus: "is_fin a \<Longrightarrow> val (- a) = - val a"
  by (cases a; simp)

lemma fin_minus: "is_fin a \<Longrightarrow> is_fin b \<Longrightarrow> is_fin (a - b)"
  by (simp add: minus_jsnum_def fin_plus fin_uminus)

lemma val_minus: "is_fin a \<Longrightarrow> is_fin b \<Longrightarrow> val (a - b) = val a - val b"
  by (simp add: minus_jsnum_def val_plus fin_uminus val_uminus)

lemma fin_times: "is_fin a \<Longrightarrow> is_fin b \<Longrightarrow> is_fin (a * b)"
  by (cases a; cases b; simp add: js_arith)

lemma val_times: "is_fin a \<Longrightarrow> is_fin b \<Longrightarrow> val (a * b) = val a * val b"
  by (cases a; cases b; simp add: js_arith)

lemma fin_divide: "is_fin a \<Longrightarrow> is_fin b \<Longrightarrow> val b \<noteq> 0 \<Longrightarrow> is_fin (a / b)"
  by (cases a; cases b; simp add: js_arith)

lemma val_divide: "is_fin a \<Longrightarrow> is_fin b \<Longrightarrow> val b \<noteq> 0 \<Longrightarrow> val (a / b) = val a / val b"
  by (cases a; cases b; simp add: js_arith)

lemma fin_sqrt: "is_fin a \<Longrightarrow> 0 \<le> val a \<Longrightarrow> is_fin (Math_sqrt a)"
  by (cases a; simp)

lemma val_sqrt: "is_fin a \<Longrightarrow> 0 \<le> val a \<Longrightarrow> val (Math_sqrt a) = sqrt (val a)"
  by (cases a; simp)



lemmas fin_ops = fin_plus fin_minus fin_times fin_uminus
lemmas val_ops = val_plus val_minus val_times val_uminus

lemma fin3_scale: "fin3 v \<Longrightarrow> is_fin s \<Longrightarrow> fin3 (scale v s)"
  by (cases v) (simp add: fin_ops)

lemma vals_scale: "fin3 v \<Longrightarrow> is_fin s \<Longrightarrow> vals (scale v s) = spec_scale (val s) (vals v)"
  by (cases v) (simp add: val_ops)

lemma fin3_cross: "fin3 a \<Longrightarrow> fin3 b \<Longrightarrow> fin3 (cross a b)"
  by (cases a; cases b) (simp add: fin_ops)

lemma vals_cross: "fin3 a \<Longrightarrow> fin3 b \<Longrightarrow> vals (cross a b) = spec_cross (vals a) (vals b)"
  by (cases a; cases b) (simp add: fin_ops val_ops)

lemma fin_dot: "fin3 a \<Longrightarrow> fin3 b \<Longrightarrow> is_fin (dot a b)"
  by (cases a; cases b) (simp add: fin_ops)

lemma val_dot: "fin3 a \<Longrightarrow> fin3 b \<Longrightarrow> val (dot a b) = spec_dot (vals a) (vals b)"
  by (cases a; cases b) (simp add: fin_ops val_ops)

lemma fin3_add: "fin3 a \<Longrightarrow> fin3 b \<Longrightarrow> fin3 (add a b)"
  by (cases a; cases b) (simp add: fin_ops)

lemma vals_add: "fin3 a \<Longrightarrow> fin3 b \<Longrightarrow> vals (add a b) = spec_add (vals a) (vals b)"
  by (cases a; cases b) (simp add: fin_ops val_ops)

lemma spec_dot_self_nonneg: "0 \<le> spec_dot v v"
  by (cases v) simp

lemma fin_magnitude: "fin3 v \<Longrightarrow> is_fin (magnitude v)"
  by (cases v) (simp add: fin_ops val_ops fin_sqrt)

lemma val_magnitude: "fin3 v \<Longrightarrow> val (magnitude v) = spec_norm (vals v)"
  by (cases v) (simp add: fin_ops val_ops val_sqrt spec_norm_def)

lemma G_computePlane:
  "G (computePlane h k l vs a) =
     (let a1 = scale (fst vs) a; a2 = scale (fst (snd vs)) a; a3 = scale (snd (snd vs)) a;
          r = Fin 1 / dot a1 (cross a2 a3)
      in add (add (scale (scale (cross a2 a3) r) h) (scale (scale (cross a3 a1) r) k))
           (scale (scale (cross a1 a2) r) l))"
  by (simp add: computePlane_def Let_def)

lemma dSpacing_computePlane:
  "dSpacing (computePlane h k l vs a) =
     (let m = magnitude (G (computePlane h k l vs a)) in if Fin 0 < m then Fin 1 / m else PInf)"
  by (simp add: computePlane_def Let_def)

lemma planeNormal_computePlane:
  "planeNormal (computePlane h k l vs a) = normalize (G (computePlane h k l vs a))"
  by (simp add: computePlane_def Let_def)

lemma computePlane_fin_G:
  assumes "fin3 v1" "fin3 v2" "fin3 v3" "is_fin a" "is_fin h" "is_fin k" "is_fin l"
    and "spec_volume (vals v1, vals v2, vals v3) (val a) \<noteq> 0"
  shows "fin3 (G (computePlane h k l (v1, v2, v3) a))"
    and "vals (G (computePlane h k l (v1, v2, v3) a)) =
           spec_G (val h) (val k) (val l) (vals v1, vals v2, vals v3) (val a)"
proof -
  let ?a1 = "scale v1 a" and ?a2 = "scale v2 a" and ?a3 = "scale v3 a"
  have f: "fin3 ?a1" "fin3 ?a2" "fin3 ?a3"
    using assms by (simp_all add: fin3_scale)
  have vol: "is_fin (dot ?a1 (cross ?a2 ?a3))"
    "val (dot ?a1 (cross ?a2 ?a3)) = spec_volume (vals v1, vals v2, vals v3) (val a)"
    using assms f by (simp_all add: fin_dot val_dot fin3_cross vals_cross vals_scale spec_volume_def)
  have r: "is_fin (Fin 1 / dot ?a1 (cross ?a2 ?a3))"
    "val (Fin 1 / dot ?a1 (cross ?a2 ?a3)) = 1 / spec_volume (vals v1, vals v2, vals v3) (val a)"
    using vol assms(8) by (simp_all add: fin_divide val_divide)
  show "fin3 (G (computePlane h k l (v1, v2, v3) a))"
    using assms f r(1) by (simp add: G_computePlane Let_def fin3_add fin3_scale fin3_cross)
  show "vals (G (computePlane h k l (v1, v2, v3) a)) =
           spec_G (val h) (val k) (val l) (vals v1, vals v2, vals v3) (val a)"
    using assms f r
    by (simp add: G_computePlane spec_G_def Let_def fin3_add fin3_scale fin3_cross
        vals_add vals_scale vals_cross spec_volume_def)
qed


lemma spec_norm_zero_iff: "spec_norm v = 0 \<longleftrightarrow> v = (0, 0, 0)"
proof (cases v)
  case (fields x y z)
  have "x * x + y * y + z * z = 0 \<longleftrightarrow> x = 0 \<and> y = 0 \<and> z = 0"
    using sum_squares_eq_zero_iff [of x y] 
    by (smt (verit) mult_eq_0_iff zero_le_square)
  then show ?thesis using fields by (simp add: spec_norm_def)
qed

lemma spec_norm_nonneg: "0 \<le> spec_norm v"
  by (simp add: spec_norm_def spec_dot_self_nonneg)




lemma spec_scale_zero: "spec_scale 0 v = (0, 0, 0)"
  by (cases v) simp

lemma spec_G_zero: "spec_G 0 0 0 vs a = (0, 0, 0)"
  by (simp add: spec_G_def Let_def spec_scale_zero)

lemma sentinel_when_not_positive:
  assumes "\<not> Fin 0 < magnitude (G (computePlane h k l vs a))"
  shows "dSpacing (computePlane h k l vs a) = PInf"
    and "planeNormal (computePlane h k l vs a) = (Fin 0, Fin 0, Fin 0)"
  using assms by (simp_all add: dSpacing_computePlane planeNormal_computePlane normalize_def)

lemma zero_not_positive: "is_zero m \<Longrightarrow> \<not> Fin 0 < m"
  by (cases m) simp_all

lemma computePlane_000:
  assumes "fin3 v1" "fin3 v2" "fin3 v3" "is_fin a"
    and "spec_volume (vals v1, vals v2, vals v3) (val a) \<noteq> 0"
  shows "is_zero (magnitude (G (computePlane (Fin 0) (Fin 0) (Fin 0) (v1, v2, v3) a)))"
proof -
  let ?G = "G (computePlane (Fin 0) (Fin 0) (Fin 0) (v1, v2, v3) a)"
  have fG: "fin3 ?G" and vG: "vals ?G = (0, 0, 0)"
    using computePlane_fin_G [OF assms(1-4) _ _ _, of "Fin 0" "Fin 0" "Fin 0"] assms(5)
    by (simp_all add: spec_G_zero)
  have "is_fin (magnitude ?G)" "val (magnitude ?G) = 0"
    using fG vG by (simp_all add: fin_magnitude val_magnitude spec_norm_def)
  then show ?thesis
    by (cases "magnitude ?G") simp_all
qed

lemma nonfin_times_recip: "is_fin c \<Longrightarrow> is_zero v \<Longrightarrow> \<not> is_fin (c * (Fin 1 / v))"
  by (cases c; cases v; simp add: js_arith)

lemma nonfin_times_fin: "\<not> is_fin x \<Longrightarrow> is_fin h \<Longrightarrow> \<not> is_fin (x * h)"
  by (cases x; cases h; simp add: js_arith)

lemma nonfin_plus: "\<not> is_fin x \<Longrightarrow> \<not> is_fin y \<Longrightarrow> \<not> is_fin (x + y)"
  by (cases x; cases y; simp)

lemma nonfin3_recip: "fin3 c \<Longrightarrow> is_zero v \<Longrightarrow> nonfin3 (scale c (Fin 1 / v))"
  by (cases c) (simp add: nonfin_times_recip)

lemma nonfin3_scale: "nonfin3 b \<Longrightarrow> is_fin h \<Longrightarrow> nonfin3 (scale b h)"
  by (cases b) (simp add: nonfin_times_fin)

lemma nonfin3_add: "nonfin3 x \<Longrightarrow> nonfin3 y \<Longrightarrow> nonfin3 (add x y)"
  by (cases x; cases y) (simp add: nonfin_plus)

lemma nonfin_square: "\<not> is_fin x \<Longrightarrow> x * x = PInf \<or> x * x = NaN"
  by (cases x; simp add: js_arith)

lemma nonfin3_magnitude: "nonfin3 v \<Longrightarrow> magnitude v = PInf \<or> magnitude v = NaN"
proof (cases v)
  case (fields x y z)
  assume "nonfin3 v"
  then have "x * x = PInf \<or> x * x = NaN" "y * y = PInf \<or> y * y = NaN" "z * z = PInf \<or> z * z = NaN"
    using fields by (simp_all add: nonfin_square)
  then show ?thesis
    using fields by auto
qed

lemma nonfin_div_PInf: "\<not> is_fin x \<Longrightarrow> x / PInf = NaN"
  by (cases x; simp add: js_arith)

lemma computePlane_zero_volume_G:
  assumes "fin3 v1" "fin3 v2" "fin3 v3" "is_fin a" "is_fin h" "is_fin k" "is_fin l"
    and "is_zero (dot (scale v1 a) (cross (scale v2 a) (scale v3 a)))"
  shows "nonfin3 (G (computePlane h k l (v1, v2, v3) a))"
proof -
  let ?a1 = "scale v1 a" and ?a2 = "scale v2 a" and ?a3 = "scale v3 a"
  have f: "fin3 ?a1" "fin3 ?a2" "fin3 ?a3"
    using assms by (simp_all add: fin3_scale)
  show ?thesis
    using assms f
    by (simp add: G_computePlane Let_def nonfin3_add nonfin3_scale nonfin3_recip fin3_cross)
qed

lemma computePlane_zero_volume:
  assumes "fin3 v1" "fin3 v2" "fin3 v3" "is_fin a" "is_fin h" "is_fin k" "is_fin l"
    and "is_zero (dot (scale v1 a) (cross (scale v2 a) (scale v3 a)))"
  shows "(dSpacing (computePlane h k l (v1, v2, v3) a) = PInf \<and>
          planeNormal (computePlane h k l (v1, v2, v3) a) = (Fin 0, Fin 0, Fin 0)) \<or>
         (dSpacing (computePlane h k l (v1, v2, v3) a) = Fin 0 \<and>
          planeNormal (computePlane h k l (v1, v2, v3) a) = (NaN, NaN, NaN))"
proof -
  let ?G = "G (computePlane h k l (v1, v2, v3) a)"
  have nf: "nonfin3 ?G"
    using assms by (rule computePlane_zero_volume_G)
  then consider "magnitude ?G = PInf" | "magnitude ?G = NaN"
    using nonfin3_magnitude by blast
  then show ?thesis
  proof cases
    case 1
    obtain g0 g1 g2 where g: "?G = (g0, g1, g2)"
      by (cases ?G)
    have "normalize ?G = (NaN, NaN, NaN)"
      using nf 1 unfolding g by (simp add: normalize_def nonfin_div_PInf del: magnitude.simps)
    moreover have "dSpacing (computePlane h k l (v1, v2, v3) a) = Fin 0"
      using 1 by (simp add: dSpacing_computePlane js_arith)
    ultimately show ?thesis
      by (simp add: planeNormal_computePlane)
  next
    case 2
    then have "\<not> Fin 0 < magnitude ?G"
      by simp
    then show ?thesis
      using sentinel_when_not_positive by blast
  qed
qed



section \<open>Claims about computePlane\<close>




text \<open>
  C2. For finite lattice vectors with a nonzero cell volume and a finite lattice constant
  \<open>a > 0\<close>, \<open>computePlane(0,0,0, vectors, a)\<close> returns \<open>dSpacing = +\<infinity>\<close> and the zero
  normal; and on any input, when the magnitude of \<open>G\<close> is zero the result is that
  sentinel pair.
\<close>

theorem computePlane_sentinel:
  "(fin3 u \<and> fin3 v \<and> fin3 w \<and> is_fin a \<and> 0 < val a \<and>
    spec_volume (vals u, vals v, vals w) (val a) \<noteq> 0 \<longrightarrow>
      dSpacing (computePlane (Fin 0) (Fin 0) (Fin 0) (u, v, w) a) = PInf \<and>
      planeNormal (computePlane (Fin 0) (Fin 0) (Fin 0) (u, v, w) a) = (Fin 0, Fin 0, Fin 0)) \<and>
   (is_zero (magnitude (G (computePlane h k l vs b))) \<longrightarrow>
      dSpacing (computePlane h k l vs b) = PInf \<and>
      planeNormal (computePlane h k l vs b) = (Fin 0, Fin 0, Fin 0))"
  using computePlane_000 [of u v w a] zero_not_positive
    sentinel_when_not_positive [of "Fin 0" "Fin 0" "Fin 0" "(u, v, w)" a]
    sentinel_when_not_positive [of h k l vs b]
  by blast

theorem computePlane_sentinel_witness:
  "dSpacing (computePlane (Fin 0) (Fin 0) (Fin 0)
       ((Fin 1, Fin 0, Fin 0), (Fin 0, Fin 1, Fin 0), (Fin 0, Fin 0, Fin 1)) (Fin 2)) = PInf \<and>
   planeNormal (computePlane (Fin 0) (Fin 0) (Fin 0)
       ((Fin 1, Fin 0, Fin 0), (Fin 0, Fin 1, Fin 0), (Fin 0, Fin 0, Fin 1)) (Fin 2)) =
     (Fin 0, Fin 0, Fin 0) \<and>
   is_zero (magnitude (G (computePlane (Fin 0) (Fin 0) (Fin 0)
       ((Fin 1, Fin 0, Fin 0), (Fin 0, Fin 1, Fin 0), (Fin 0, Fin 0, Fin 1)) (Fin 2))))"
proof -
  have z: "is_zero (magnitude (G (computePlane (Fin 0) (Fin 0) (Fin 0)
       ((Fin 1, Fin 0, Fin 0), (Fin 0, Fin 1, Fin 0), (Fin 0, Fin 0, Fin 1)) (Fin 2))))"
    by (simp add: G_computePlane js_arith)
  show ?thesis
    using z computePlane_sentinel [of "(Fin 1, Fin 0, Fin 0)" "(Fin 0, Fin 1, Fin 0)"
      "(Fin 0, Fin 0, Fin 1)" "Fin 2" "Fin 0" "Fin 0" "Fin 0"
      "((Fin 1, Fin 0, Fin 0), (Fin 0, Fin 1, Fin 0), (Fin 0, Fin 0, Fin 1))" "Fin 2"]
    by (simp add: spec_volume_def)
qed

text \<open>
  C3 as stated fails: \<open>computePlane\<close> has no test of the cell volume and no failure
  result. On the coplanar vectors (1,-1,0), (0,1,-1), (1,0,-1) the volume is zero, the
  division is carried out, and the record that comes back holds NaN and infinities.
\<close>

theorem computePlane_degenerate_counterexample:
  "dot (scale (Fin 1, Fin (- 1), Fin 0) (Fin 1))
     (cross (scale (Fin 0, Fin 1, Fin (- 1)) (Fin 1)) (scale (Fin 1, Fin 0, Fin (- 1)) (Fin 1))) =
     Fin 0 \<and>
   computePlane (Fin 1) (Fin 1) (Fin (- 1))
     ((Fin 1, Fin (- 1), Fin 0), (Fin 0, Fin 1, Fin (- 1)), (Fin 1, Fin 0, Fin (- 1))) (Fin 1) =
     \<lparr>planeNormal = (NaN, NaN, NaN), dSpacing = Fin 0, G = (NInf, NInf, NInf)\<rparr>"
  by (simp add: computePlane_def js_arith normalize_def)

text \<open>
  C3, amended. When the lattice vectors, the lattice constant and the indices are finite
  and the cell volume computed by the code is a zero, \<open>computePlane\<close> still returns a
  record: every component of \<open>G\<close> is NaN or an infinity, and the other two fields are
  either \<open>dSpacing = +\<infinity>\<close> with the zero normal, or \<open>dSpacing = 0\<close> with a normal of
  three NaN.
\<close>

theorem computePlane_zero_volume_result:
  "fin3 u \<and> fin3 v \<and> fin3 w \<and> is_fin a \<and> is_fin h \<and> is_fin k \<and> is_fin l \<and>
   is_zero (dot (scale u a) (cross (scale v a) (scale w a))) \<longrightarrow>
     nonfin3 (G (computePlane h k l (u, v, w) a)) \<and>
     ((dSpacing (computePlane h k l (u, v, w) a) = PInf \<and>
       planeNormal (computePlane h k l (u, v, w) a) = (Fin 0, Fin 0, Fin 0)) \<or>
      (dSpacing (computePlane h k l (u, v, w) a) = Fin 0 \<and>
       planeNormal (computePlane h k l (u, v, w) a) = (NaN, NaN, NaN)))"
  using computePlane_zero_volume_G [of u v w a h k l] computePlane_zero_volume [of u v w a h k l]
  by blast

theorem computePlane_zero_volume_result_witness:
  "is_zero (dot (scale (Fin 1, Fin 0, Fin 0) (Fin 1))
     (cross (scale (Fin 0, Fin 1, Fin 0) (Fin 1)) (scale (Fin 1, Fin 1, Fin 0) (Fin 1)))) \<and>
   nonfin3 (G (computePlane (Fin 1) (Fin 0) (Fin 0)
     ((Fin 1, Fin 0, Fin 0), (Fin 0, Fin 1, Fin 0), (Fin 1, Fin 1, Fin 0)) (Fin 1))) \<and>
   ((dSpacing (computePlane (Fin 1) (Fin 0) (Fin 0)
       ((Fin 1, Fin 0, Fin 0), (Fin 0, Fin 1, Fin 0), (Fin 1, Fin 1, Fin 0)) (Fin 1)) = PInf \<and>
     planeNormal (computePlane (Fin 1) (Fin 0) (Fin 0)
       ((Fin 1, Fin 0, Fin 0), (Fin 0, Fin 1, Fin 0), (Fin 1, Fin 1, Fin 0)) (Fin 1)) =
       (Fin 0, Fin 0, Fin 0)) \<or>
    (dSpacing (computePlane (Fin 1) (Fin 0) (Fin 0)
       ((Fin 1, Fin 0, Fin 0), (Fin 0, Fin 1, Fin 0), (Fin 1, Fin 1, Fin 0)) (Fin 1)) = Fin 0 \<and>
     planeNormal (computePlane (Fin 1) (Fin 0) (Fin 0)
       ((Fin 1, Fin 0, Fin 0), (Fin 0, Fin 1, Fin 0), (Fin 1, Fin 1, Fin 0)) (Fin 1)) =
       (NaN, NaN, NaN)))"
proof -
  have z: "is_zero (dot (scale (Fin 1, Fin 0, Fin 0) (Fin 1))
     (cross (scale (Fin 0, Fin 1, Fin 0) (Fin 1)) (scale (Fin 1, Fin 1, Fin 0) (Fin 1))))"
    by (simp add: js_arith)
  show ?thesis
    using z computePlane_zero_volume_result [of "(Fin 1, Fin 0, Fin 0)" "(Fin 0, Fin 1, Fin 0)"
      "(Fin 1, Fin 1, Fin 0)" "Fin 1" "Fin 1" "Fin 0" "Fin 0"]
    by simp
qed


section \<open>Lattice constant, deduplication and bonds\<close>

lemma latticeConstantOr_simps:
  "latticeConstantOr None s = defaultA s"
  "latticeConstantOr (Some (Fin 0)) s = defaultA s"
  "latticeConstantOr (Some (defaultA s)) s = defaultA s"
  by (simp_all add: latticeConstantOr_def truthy_def)

lemma latticeConstantOr_nonzero: "x \<noteq> 0 \<Longrightarrow> latticeConstantOr (Some (Fin x)) s = Fin x"
  by (simp add: latticeConstantOr_def truthy_def)

declare cellPosition.simps [simp del] keyOf.simps [simp del]

lemma fold_visit:
  assumes "fold (visit s a off r) cs (seen, atoms) = (seen', atoms')"
    and "seen = set (map (\<lambda>x. keyOf (position x)) atoms)"
    and "distinct (map (\<lambda>x. keyOf (position x)) atoms)"
  shows "seen' = set (map (\<lambda>x. keyOf (position x)) atoms') \<and>
         distinct (map (\<lambda>x. keyOf (position x)) atoms') \<and>
         seen' = seen \<union> (\<lambda>c. keyOf (cellPosition s a off c)) ` set cs"
  using assms
proof (induction cs arbitrary: seen atoms)
  case Nil
  then show ?case by auto
next
  case (Cons c cs)
  obtain seen1 atoms1 where v: "visit s a off r c (seen, atoms) = (seen1, atoms1)"
    by (cases "visit s a off r c (seen, atoms)")
  have inv1: "seen1 = set (map (\<lambda>x. keyOf (position x)) atoms1)"
    "distinct (map (\<lambda>x. keyOf (position x)) atoms1)"
    "seen1 = insert (keyOf (cellPosition s a off c)) seen"
    using v Cons.prems(2,3) by (auto simp: visit_def Let_def split: if_splits)
  have "fold (visit s a off r) cs (seen1, atoms1) = (seen', atoms')"
    using Cons.prems(1) v by simp
  from Cons.IH [OF this inv1(1,2)] inv1(3) show ?case
    by auto
qed

lemma generateLattice_keys:
  "distinct (map (\<lambda>x. keyOf (position x)) (generateLattice s r lc))"
  "set (map (\<lambda>x. keyOf (position x)) (generateLattice s r lc)) = keyOf ` set (latticePositions s r lc)"
proof -
  let ?a = "latticeConstantOr lc s"
  obtain seen' atoms' where
    f: "fold (visit s ?a (centering r ?a) r) (cells r (basis s)) ({}, []) = (seen', atoms')"
    by (cases "fold (visit s ?a (centering r ?a) r) (cells r (basis s)) ({}, [])")
  have g: "generateLattice s r lc = atoms'"
    using f by (simp add: generateLattice_def Let_def)
  have e: "{} = set (map (\<lambda>x. keyOf (position x)) ([] :: atom list))"
    "distinct (map (\<lambda>x. keyOf (position x)) ([] :: atom list))"
    by simp_all
  note k = fold_visit [OF f e]
  show "distinct (map (\<lambda>x. keyOf (position x)) (generateLattice s r lc))"
    unfolding g using k by blast
  have "keyOf ` set (latticePositions s r lc) =
          (\<lambda>c. keyOf (cellPosition s ?a (centering r ?a) c)) ` set (cells r (basis s))"
    by (simp add: latticePositions_def Let_def image_image)
  moreover have "set (map (\<lambda>x. keyOf (position x)) atoms') =
      {} \<union> (\<lambda>c. keyOf (cellPosition s ?a (centering r ?a) c)) ` set (cells r (basis s))"
    using k by blast
  ultimately show "set (map (\<lambda>x. keyOf (position x)) (generateLattice s r lc)) =
      keyOf ` set (latticePositions s r lc)"
    unfolding g by (simp only: Un_empty_left)
qed

lemma length_generateLattice:
  "length (generateLattice s r lc) = card (keyOf ` set (latticePositions s r lc))"
proof -
  have "length (generateLattice s r lc) = length (map (\<lambda>x. keyOf (position x)) (generateLattice s r lc))"
    by simp
  also have "\<dots> = card (set (map (\<lambda>x. keyOf (position x)) (generateLattice s r lc)))"
    using generateLattice_keys(1) [of s r lc] by (simp only: distinct_card)
  finally show ?thesis
    by (simp only: generateLattice_keys(2))
qed

lemma length_concat_const:
  "(\<And>x. x \<in> set xs \<Longrightarrow> length (f x) = n) \<Longrightarrow> length (concat (map f xs)) = length xs * n"
  by (induction xs) simp_all

lemma length_cells: "length (cells r bs) = r * (r * (r * length bs))"
  by (simp add: cells_def length_concat_const)

lemma length_latticePositions: "length (latticePositions s r lc) = r * (r * (r * length (basis s)))"
  by (simp add: latticePositions_def Let_def length_cells)

lemma length_generateLattice_le:
  "length (generateLattice s r lc) \<le> r * (r * (r * length (basis s)))"
  using card_length [of "map keyOf (latticePositions s r lc)"]
  by (simp add: length_generateLattice length_latticePositions)

lemma length_generateLattice_eq_iff:
  "length (generateLattice s r lc) = r * (r * (r * length (basis s))) \<longleftrightarrow>
     distinct (map keyOf (latticePositions s r lc))"
  using card_distinct [of "map keyOf (latticePositions s r lc)"]
    distinct_card [of "map keyOf (latticePositions s r lc)"]
  by (auto simp: length_generateLattice length_latticePositions)

lemma card_image_refines:
  assumes "finite S" and "\<And>x y. x \<in> S \<Longrightarrow> y \<in> S \<Longrightarrow> g x = g y \<Longrightarrow> f x = f y"
  shows "card (f ` S) \<le> card (g ` S)"
proof -
  define h where "h k = f (SOME x. x \<in> S \<and> g x = k)" for k
  have "f x = h (g x)" if "x \<in> S" for x
  proof -
    have "\<exists>y. y \<in> S \<and> g y = g x"
      using that by blast
    then have "(SOME y. y \<in> S \<and> g y = g x) \<in> S \<and> g (SOME y. y \<in> S \<and> g y = g x) = g x"
      by (rule someI_ex)
    then show ?thesis
      unfolding h_def using assms(2) [OF _ that] by simp
  qed
  then have "f ` S \<subseteq> h ` (g ` S)"
    by blast
  then have "card (f ` S) \<le> card (h ` (g ` S))"
    using assms(1) by (intro card_mono) simp_all
  also have "\<dots> \<le> card (g ` S)"
    using assms(1) by (intro card_image_le) simp
  finally show ?thesis .
qed

lemma in_set_cells:
  "(i, j, k, b) \<in> set (cells r bs) \<longleftrightarrow> i < r \<and> j < r \<and> k < r \<and> b \<in> set bs"
  by (simp add: cells_def image_iff)

lemma set_cells_mono:
  assumes "r1 \<le> r2"
  shows "set (cells r1 bs) \<subseteq> set (cells r2 bs)"
proof
  fix c
  assume c: "c \<in> set (cells r1 bs)"
  obtain i j k b where e: "c = (i, j, k, b)"
    by (cases c)
  show "c \<in> set (cells r2 bs)"
    using c assms unfolding e in_set_cells by simp
qed

lemma length_generateLattice_siteKey:
  "length (generateLattice s r lc) = card (siteKey s r lc ` set (cells r (basis s)))"
proof -
  have "keyOf ` set (latticePositions s r lc) = siteKey s r lc ` set (cells r (basis s))"
    unfolding latticePositions_def siteKey_def Let_def set_map image_image ..
  then show ?thesis
    by (simp only: length_generateLattice)
qed

lemma length_generateLattice_remdups:
  "length (generateLattice s r lc) = length (remdups (map keyOf (latticePositions s r lc)))"
  by (simp only: length_generateLattice set_map [symmetric] card_set)











lemma maxBondLength_default:
  "i \<notin> {''sc'', ''bcc'', ''fcc'', ''diamond'', ''hcp''} \<Longrightarrow> maxBondLength i a = a * Fin (105 / 100)"
  by (simp add: maxBondLength_def)

lemma sqrt_676: "sqrt (676 / 625) = 26 / 25"
  by (rule real_sqrt_unique) (simp_all add: power2_eq_square)


lemma upt_two: "[0..<1] = [0]" "[0..<2] = [0, 1]" "[1..<2] = [1]" "[2..<2] = []"
  by (simp_all add: upt_rec)

lemmas eval_bonds =
  generateBonds_def bondsWithin_def bondPair_def maxBondLength_def latticeConstantOr_def
  upt_two js_arith Let_def

lemmas eval_positions =
  latticePositions_def latticeConstantOr_def cells_def upt_two centering_def tolerance_def
  cellPosition.simps keyOf.simps js_arith Let_def

lemmas eval_sites = siteKey_def latticeConstantOr_def cells_def upt_two centering_def tolerance_def
  cellPosition.simps keyOf.simps js_arith Let_def

section \<open>Claims about generateBonds\<close>



text \<open>
  C5 as stated fails: the \<open>default\<close> branch of the switch multiplies the lattice constant
  by 1.05 like every other branch. With the unrecognised id \<open>tetragonal\<close> and lattice
  constant 1, two atoms 1.04 apart are bonded although 1.04 exceeds the lattice constant.
\<close>

theorem generateBonds_fallback_counterexample:
  "generateBonds
     [\<lparr>position = (Fin 0, Fin 0, Fin 0), isEdge = True\<rparr>,
      \<lparr>position = (Fin (104 / 100), Fin 0, Fin 0), isEdge = True\<rparr>]
     \<lparr>sid = ''tetragonal'', basis = [(Fin 0, Fin 0, Fin 0)], vectors = cubicVectors,
        defaultA = Fin 1\<rparr>
     None =
   [\<lparr>bond_start = (Fin 0, Fin 0, Fin 0), bond_end = (Fin (104 / 100), Fin 0, Fin 0)\<rparr>] \<and>
   distance (Fin 0, Fin 0, Fin 0) (Fin (104 / 100), Fin 0, Fin 0) = Fin (104 / 100) \<and>
   \<not> Fin (104 / 100) \<le> Fin 1 \<and>
   maxBondLength ''tetragonal'' (Fin 1) = Fin (105 / 100)"
  by (simp add: eval_bonds sqrt_676)

text \<open>
  C5, amended. For a structure whose id is none of \<open>sc\<close>, \<open>bcc\<close>, \<open>fcc\<close>, \<open>diamond\<close>,
  \<open>hcp\<close>, \<open>generateBonds\<close> uses 1.05 times the lattice constant as the cutoff.
\<close>

theorem generateBonds_fallback:
  "sid s \<notin> {''sc'', ''bcc'', ''fcc'', ''diamond'', ''hcp''} \<longrightarrow>
     maxBondLength (sid s) (latticeConstantOr lc s) = latticeConstantOr lc s * Fin (105 / 100) \<and>
     generateBonds atoms s lc = bondsWithin atoms (latticeConstantOr lc s * Fin (105 / 100))"
  using maxBondLength_default [of "sid s" "latticeConstantOr lc s"]
  by (simp add: generateBonds_def Let_def)

theorem generateBonds_fallback_witness:
  "maxBondLength ''tetragonal'' (Fin 2) = Fin 2 * Fin (105 / 100) \<and>
   generateBonds []
     \<lparr>sid = ''tetragonal'', basis = [], vectors = cubicVectors, defaultA = Fin 1\<rparr> (Some (Fin 2)) =
   bondsWithin [] (Fin 2 * Fin (105 / 100))"
  using generateBonds_fallback [of "\<lparr>sid = ''tetragonal'', basis = [], vectors = cubicVectors,
      defaultA = Fin 1\<rparr>" "Some (Fin 2)" "[]"]
  by (simp add: latticeConstantOr_def truthy_def)

section \<open>Claims about generateLattice\<close>

text \<open>
  C8 as stated fails: deduplication also runs inside a single cell, on the 0.01 grid. For
  the catalogue's \<open>bcc\<close> structure (cubic vectors, two basis atoms) and lattice constant
  0.005 both basis atoms fall in the grid cell of the origin, and \<open>repeat = 1\<close> gives one
  atom, not two.
\<close>

theorem generateLattice_single_cell_counterexample:
  "length (generateLattice STRUCTURES_bcc 1 (Some (Fin (5 / 1000)))) = 1 \<and>
   length (basis STRUCTURES_bcc) = 2 \<and>
   spec_volume (vals (fst (vectors STRUCTURES_bcc)), vals (fst (snd (vectors STRUCTURES_bcc))),
     vals (snd (snd (vectors STRUCTURES_bcc)))) (5 / 1000) \<noteq> 0"
proof -
  have "map keyOf (latticePositions STRUCTURES_bcc 1 (Some (Fin (5 / 1000)))) =
      [(Fin 0, Fin 0, Fin 0), (Fin 0, Fin 0, Fin 0)]"
    by (simp add: eval_positions STRUCTURES_bcc_def truthy_def)
  then have "keyOf ` set (latticePositions STRUCTURES_bcc 1 (Some (Fin (5 / 1000)))) =
      {(Fin 0, Fin 0, Fin 0)}"
    by (simp only: set_map [symmetric]) simp
  then have "length (generateLattice STRUCTURES_bcc 1 (Some (Fin (5 / 1000)))) = 1"
    by (simp only: length_generateLattice) simp
  then show ?thesis
    by (simp add: spec_volume_def STRUCTURES_bcc_def)
qed

text \<open>
  C8, amended. With \<open>repeat = 1\<close>, \<open>generateLattice\<close> produces at most \<open>|basis|\<close> atoms, no
  two of them with the same quantized position; it produces exactly \<open>|basis|\<close> atoms if
  and only if the quantized positions of the basis atoms are pairwise distinct.
\<close>

theorem generateLattice_single_cell:
  "distinct (map (\<lambda>x. keyOf (position x)) (generateLattice s 1 lc)) \<and>
   length (generateLattice s 1 lc) \<le> length (basis s) \<and>
   (length (generateLattice s 1 lc) = length (basis s) \<longleftrightarrow>
      distinct (map keyOf (latticePositions s 1 lc)))"
  using generateLattice_keys(1) [of s 1 lc] length_generateLattice_le [of s 1 lc]
    length_generateLattice_eq_iff [of s 1 lc]
  by simp

theorem generateLattice_single_cell_witness:
  "length (generateLattice STRUCTURES_bcc 1 None) = 2"
proof -
  have "map keyOf (latticePositions STRUCTURES_bcc 1 None) =
      [(Fin 0, Fin 0, Fin 0), (Fin 144, Fin 144, Fin 144)]"
    by (simp add: eval_positions STRUCTURES_bcc_def)
  then have "distinct (map keyOf (latticePositions STRUCTURES_bcc 1 None))"
    by simp
  then show ?thesis
    using generateLattice_single_cell [of STRUCTURES_bcc None]
    by (simp add: STRUCTURES_bcc_def)
qed

text \<open>
  C9 as stated fails. The centering offset \<open>(repeat - 1) a / 2\<close> moves every position
  before it is quantized, so positions that fall in different cells of the 0.01 grid at
  one repeat count can fall in the same cell at a larger one. For lattice vectors
  \<open>0.375\<close> times the identity, lattice constant 0.016 and basis (0.75, 0.75, 0.75),
  (0.875, 0.875, 0.875) there are 2 atoms at \<open>repeat = 1\<close> and 1 atom at \<open>repeat = 2\<close>.
\<close>

theorem generateLattice_monotone_counterexample:
  "length (generateLattice
     \<lparr>sid = ''sc'',
        basis = [(Fin (3 / 4), Fin (3 / 4), Fin (3 / 4)), (Fin (7 / 8), Fin (7 / 8), Fin (7 / 8))],
        vectors = ((Fin (3 / 8), Fin 0, Fin 0), (Fin 0, Fin (3 / 8), Fin 0),
                   (Fin 0, Fin 0, Fin (3 / 8))),
        defaultA = Fin (16 / 1000)\<rparr> 1 None) = 2 \<and>
   length (generateLattice
     \<lparr>sid = ''sc'',
        basis = [(Fin (3 / 4), Fin (3 / 4), Fin (3 / 4)), (Fin (7 / 8), Fin (7 / 8), Fin (7 / 8))],
        vectors = ((Fin (3 / 8), Fin 0, Fin 0), (Fin 0, Fin (3 / 8), Fin 0),
                   (Fin 0, Fin 0, Fin (3 / 8))),
        defaultA = Fin (16 / 1000)\<rparr> 2 None) = 1"
proof -
  let ?s = "\<lparr>sid = ''sc'',
        basis = [(Fin (3 / 4), Fin (3 / 4), Fin (3 / 4)), (Fin (7 / 8), Fin (7 / 8), Fin (7 / 8))],
        vectors = ((Fin (3 / 8), Fin 0, Fin 0), (Fin 0, Fin (3 / 8), Fin 0),
                   (Fin 0, Fin 0, Fin (3 / 8))),
        defaultA = Fin (16 / 1000)\<rparr>"
  have "map keyOf (latticePositions ?s 1 None) = [(Fin 0, Fin 0, Fin 0), (Fin 1, Fin 1, Fin 1)]"
    by (simp add: eval_positions)
  then have "keyOf ` set (latticePositions ?s 1 None) = {(Fin 0, Fin 0, Fin 0), (Fin 1, Fin 1, Fin 1)}"
    by (simp only: set_map [symmetric]) simp
  then have one: "length (generateLattice ?s 1 None) = 2"
    by (simp only: length_generateLattice) simp
  have "set (map keyOf (latticePositions ?s 2 None)) = {(Fin 0, Fin 0, Fin 0)}"
    by (simp add: eval_positions)
  then have "keyOf ` set (latticePositions ?s 2 None) = {(Fin 0, Fin 0, Fin 0)}"
    by (simp only: set_map)
  then have two: "length (generateLattice ?s 2 None) = 1"
    by (simp only: length_generateLattice) simp
  show ?thesis
    using one two by simp
qed

text \<open>
  C9, amended. A site is a cell of the block together with a basis atom. For repeat counts
  \<open>r1 \<le> r2\<close>, if no two sites of the \<open>r1\<close> block that have different quantized keys at
  \<open>r1\<close> receive the same quantized key at \<open>r2\<close>, then the atom count at \<open>r2\<close> is at least
  the atom count at \<open>r1\<close>. Sites that already coincide at \<open>r1\<close> are allowed, so the
  statement covers the lattices on which deduplication acts.
\<close>

theorem generateLattice_monotone:
  "r1 \<le> r2 \<and>
   (\<forall>c \<in> set (cells r1 (basis s)). \<forall>c' \<in> set (cells r1 (basis s)).
      siteKey s r2 lc c = siteKey s r2 lc c' \<longrightarrow> siteKey s r1 lc c = siteKey s r1 lc c') \<longrightarrow>
   length (generateLattice s r1 lc) \<le> length (generateLattice s r2 lc)"
proof (intro impI)
  assume h: "r1 \<le> r2 \<and>
   (\<forall>c \<in> set (cells r1 (basis s)). \<forall>c' \<in> set (cells r1 (basis s)).
      siteKey s r2 lc c = siteKey s r2 lc c' \<longrightarrow> siteKey s r1 lc c = siteKey s r1 lc c')"
  have "card (siteKey s r1 lc ` set (cells r1 (basis s))) \<le>
        card (siteKey s r2 lc ` set (cells r1 (basis s)))"
  proof (rule card_image_refines)
    show "finite (set (cells r1 (basis s)))"
      by (rule finite_set)
    show "siteKey s r1 lc x = siteKey s r1 lc y"
      if "x \<in> set (cells r1 (basis s))" "y \<in> set (cells r1 (basis s))"
        "siteKey s r2 lc x = siteKey s r2 lc y" for x y
      using h that by blast
  qed
  also have "\<dots> \<le> card (siteKey s r2 lc ` set (cells r2 (basis s)))"
  proof (rule card_mono)
    show "finite (siteKey s r2 lc ` set (cells r2 (basis s)))"
      by (intro finite_imageI finite_set)
    show "siteKey s r2 lc ` set (cells r1 (basis s)) \<subseteq> siteKey s r2 lc ` set (cells r2 (basis s))"
      using h by (intro image_mono set_cells_mono) (rule conjunct1)
  qed
  finally show "length (generateLattice s r1 lc) \<le> length (generateLattice s r2 lc)"
    by (simp only: length_generateLattice_siteKey)
qed

theorem generateLattice_monotone_witness:
  "length (generateLattice
     \<lparr>sid = ''pair'', basis = [(Fin 0, Fin 0, Fin 0), (Fin 1, Fin 0, Fin 0)],
      vectors = cubicVectors, defaultA = Fin 1\<rparr> 1 None) \<le>
   length (generateLattice
     \<lparr>sid = ''pair'', basis = [(Fin 0, Fin 0, Fin 0), (Fin 1, Fin 0, Fin 0)],
      vectors = cubicVectors, defaultA = Fin 1\<rparr> 2 None) \<and>
   length (generateLattice
     \<lparr>sid = ''pair'', basis = [(Fin 0, Fin 0, Fin 0), (Fin 1, Fin 0, Fin 0)],
      vectors = cubicVectors, defaultA = Fin 1\<rparr> 2 None) = 12"
proof -
  let ?s = "\<lparr>sid = ''pair'', basis = [(Fin 0, Fin 0, Fin 0), (Fin 1, Fin 0, Fin 0)],
      vectors = cubicVectors, defaultA = Fin 1\<rparr>"
  have h: "\<forall>c \<in> set (cells 1 (basis ?s)). \<forall>c' \<in> set (cells 1 (basis ?s)).
      siteKey ?s 2 None c = siteKey ?s 2 None c' \<longrightarrow> siteKey ?s 1 None c = siteKey ?s 1 None c'"
  proof -
    have c: "cells 1 (basis ?s) = [(0, 0, 0, (Fin 0, Fin 0, Fin 0)), (0, 0, 0, (Fin 1, Fin 0, Fin 0))]"
      by (simp add: cells_def)
    have "map (siteKey ?s 2 None) (cells 1 (basis ?s)) =
        [(Fin (- 50), Fin (- 50), Fin (- 50)), (Fin 50, Fin (- 50), Fin (- 50))]"
      unfolding c by (simp add: eval_sites cubicVectors_def)
    then show ?thesis
      unfolding c by simp
  qed
  have k: "map keyOf (latticePositions ?s 2 None) =
      [(Fin (- 50), Fin (- 50), Fin (- 50)), (Fin 50, Fin (- 50), Fin (- 50)),
       (Fin (- 50), Fin (- 50), Fin 50), (Fin 50, Fin (- 50), Fin 50),
       (Fin (- 50), Fin 50, Fin (- 50)), (Fin 50, Fin 50, Fin (- 50)),
       (Fin (- 50), Fin 50, Fin 50), (Fin 50, Fin 50, Fin 50),
       (Fin 50, Fin (- 50), Fin (- 50)), (Fin 150, Fin (- 50), Fin (- 50)),
       (Fin 50, Fin (- 50), Fin 50), (Fin 150, Fin (- 50), Fin 50),
       (Fin 50, Fin 50, Fin (- 50)), (Fin 150, Fin 50, Fin (- 50)),
       (Fin 50, Fin 50, Fin 50), (Fin 150, Fin 50, Fin 50)]"
    by (simp add: eval_positions cubicVectors_def)
  have two: "length (generateLattice ?s 2 None) = 12"
    unfolding length_generateLattice_remdups k by simp
  have "(1::nat) \<le> 2 \<and> (\<forall>c \<in> set (cells 1 (basis ?s)). \<forall>c' \<in> set (cells 1 (basis ?s)).
      siteKey ?s 2 None c = siteKey ?s 2 None c' \<longrightarrow> siteKey ?s 1 None c = siteKey ?s 1 None c')"
    by (intro conjI h) simp
  then have "length (generateLattice ?s 1 None) \<le> length (generateLattice ?s 2 None)"
    by (rule generateLattice_monotone [of 1 2 ?s None, THEN mp])
  then show ?thesis
    using two by (intro conjI)
qed

text \<open>
  C10. An omitted or \<open>null\<close> lattice constant (\<open>None\<close>) and the lattice constant 0 make
  \<open>generateLattice\<close>, \<open>generateBonds\<close> and \<open>generateUnitCell\<close> return what they return for
  \<open>structure.defaultA\<close>; a negative lattice constant is taken as it is.
\<close>

theorem falsy_latticeConstant_defaults:
  "generateLattice s r None = generateLattice s r (Some (defaultA s)) \<and>
   generateLattice s r (Some (Fin 0)) = generateLattice s r (Some (defaultA s)) \<and>
   generateBonds atoms s None = generateBonds atoms s (Some (defaultA s)) \<and>
   generateBonds atoms s (Some (Fin 0)) = generateBonds atoms s (Some (defaultA s)) \<and>
   generateUnitCell s None = generateUnitCell s (Some (defaultA s)) \<and>
   generateUnitCell s (Some (Fin 0)) = generateUnitCell s (Some (defaultA s)) \<and>
   (x < 0 \<longrightarrow> latticeConstantOr (Some (Fin x)) s = Fin x)"
  by (simp add: generateLattice_def generateBonds_def generateUnitCell_def latticeConstantOr_simps
      latticeConstantOr_nonzero)

theorem falsy_latticeConstant_defaults_witness:
  "generateUnitCell \<lparr>sid = ''sc'', basis = [(Fin 0, Fin 0, Fin 0)], vectors = cubicVectors,
      defaultA = Fin 2\<rparr> (Some (Fin 0)) =
   generateUnitCell \<lparr>sid = ''sc'', basis = [(Fin 0, Fin 0, Fin 0)], vectors = cubicVectors,
      defaultA = Fin 2\<rparr> (Some (Fin 2)) \<and>
   latticeConstantOr (Some (Fin (- 1)))
     \<lparr>sid = ''sc'', basis = [(Fin 0, Fin 0, Fin 0)], vectors = cubicVectors, defaultA = Fin 2\<rparr> =
   Fin (- 1)"
  using falsy_latticeConstant_defaults [of "\<lparr>sid = ''sc'', basis = [(Fin 0, Fin 0, Fin 0)],
      vectors = cubicVectors, defaultA = Fin 2\<rparr>" 1 "[]" "- 1"]
  by simp


section \<open>Polygon clipping\<close>













lemma clipAll_edgeLoop: "edgeLoop (clipAll clips p) = vertices (clipAll clips p)"
  by (induction clips arbitrary: p) (simp_all add: Let_def)

lemma runningPolygon_Cons:
  "runningPolygon (c # cs) p (Suc k) = runningPolygon cs (clipPolygonByPlane p (fst c) (snd c)) k"
  by (simp add: runningPolygon_def)


lemma clipAll_nonempty_if:
  assumes "\<And>k. 1 \<le> k \<Longrightarrow> k \<le> length clips \<Longrightarrow> \<not> length (runningPolygon clips p k) < 3"
  shows "vertices (clipAll clips p) = runningPolygon clips p (length clips)"
  using assms
proof (induction clips arbitrary: p)
  case Nil
  then show ?case by (simp add: runningPolygon_def)
next
  case (Cons c cs)
  let ?p = "clipPolygonByPlane p (fst c) (snd c)"
  have "\<not> length (runningPolygon (c # cs) p 1) < 3"
    using Cons.prems [of 1] by simp
  then have ge: "\<not> length ?p < 3"
    by (simp add: runningPolygon_def)
  have "\<And>k. 1 \<le> k \<Longrightarrow> k \<le> length cs \<Longrightarrow> \<not> length (runningPolygon cs ?p k) < 3"
    using Cons.prems [of "Suc _"] by (simp add: runningPolygon_Cons)
  then have "vertices (clipAll cs ?p) = runningPolygon cs ?p (length cs)"
    by (rule Cons.IH)
  then show ?case
    using ge by (simp add: Let_def runningPolygon_Cons)
qed





lemma upt_four: "[0..<4] = [0, 1, 2, 3]"
  by (simp add: upt_rec)

lemmas eval_clip =
  clipPlaneToBox_def clipPlanes_def initialQuad_def tangents_def normalize_def
  clipPolygonByPlane_def clipEdge_def intersectEdgePlane_def upt_four js_arith Let_def

section \<open>Claims about clipPlaneToBox\<close>

text \<open>
  C6 as stated fails in its first half: \<open>clipPlaneToBox\<close> returns the polygon itself as
  the edge loop, so for the normal (0,0,1), offset 0 and half extent 5 the loop has the
  four corners and its last vertex is not its first; the caller closes the loop.
\<close>

theorem clipPlaneToBox_loop_counterexample:
  "edgeLoop (clipPlaneToBox (Fin 0, Fin 0, Fin 1) (Fin 0) (Fin 5)) =
     [(Fin (- 5), Fin 5, Fin 0), (Fin (- 5), Fin (- 5), Fin 0),
      (Fin 5, Fin (- 5), Fin 0), (Fin 5, Fin 5, Fin 0)] \<and>
   last (edgeLoop (clipPlaneToBox (Fin 0, Fin 0, Fin 1) (Fin 0) (Fin 5))) \<noteq>
     hd (edgeLoop (clipPlaneToBox (Fin 0, Fin 0, Fin 1) (Fin 0) (Fin 5)))"
  by (simp add: eval_clip)

text \<open>
  C6, amended. The edge loop returned by \<open>clipPlaneToBox\<close> is always the vertex list
  itself. For the normal (0,0,1), offset 0 and half extent 5 it is the open sequence
  (-5,5,0), (-5,-5,0), (5,-5,0), (5,5,0): four distinct vertices, the first one not
  repeated at the end.
\<close>

theorem clipPlaneToBox_loop:
  "edgeLoop (clipPlaneToBox n d B) = vertices (clipPlaneToBox n d B) \<and>
   vertices (clipPlaneToBox (Fin 0, Fin 0, Fin 1) (Fin 0) (Fin 5)) =
     [(Fin (- 5), Fin 5, Fin 0), (Fin (- 5), Fin (- 5), Fin 0),
      (Fin 5, Fin (- 5), Fin 0), (Fin 5, Fin 5, Fin 0)] \<and>
   distinct (vertices (clipPlaneToBox (Fin 0, Fin 0, Fin 1) (Fin 0) (Fin 5))) \<and>
   3 \<le> length (vertices (clipPlaneToBox (Fin 0, Fin 0, Fin 1) (Fin 0) (Fin 5)))"
proof -
  have "vertices (clipPlaneToBox (Fin 0, Fin 0, Fin 1) (Fin 0) (Fin 5)) =
     [(Fin (- 5), Fin 5, Fin 0), (Fin (- 5), Fin (- 5), Fin 0),
      (Fin 5, Fin (- 5), Fin 0), (Fin 5, Fin 5, Fin 0)]"
    by (simp add: eval_clip)
  then show ?thesis
    by (simp add: clipPlaneToBox_def clipAll_edgeLoop)
qed

theorem clipPlaneToBox_loop_witness:
  "edgeLoop (clipPlaneToBox (Fin 0, Fin 0, Fin 1) (Fin 0) (Fin 5)) =
     [(Fin (- 5), Fin 5, Fin 0), (Fin (- 5), Fin (- 5), Fin 0),
      (Fin 5, Fin (- 5), Fin 0), (Fin 5, Fin 5, Fin 0)]"
  using clipPlaneToBox_loop [of "(Fin 0, Fin 0, Fin 1)" "Fin 0" "Fin 5"]
  by simp




end
